theory Spec2Isabelle
  imports Complex_Main "HOL-Library.AList"
begin

section \<open>Shared types\<close>

text \<open>
  Python exceptions are values. \<open>AssertionError\<close> is what a failed \<open>assert\<close> raises;
  \<open>Exception\<close> stands for any exception raised by a gateway call (the code catches the
  base class and only logs the message).
\<close>

datatype error = AssertionError string | Exception string

text \<open>
  A Python \<open>dict\<close> is an association list in insertion order with distinct keys:
  \<open>k in d\<close> is \<open>map_of d k \<noteq> None\<close>, \<open>d[k] = v\<close> is \<open>AList.update k v d\<close> (a new
  key goes to the end), \<open>del d[k]\<close> on a present key is \<open>AList.delete k d\<close>,
  \<open>d.keys()\<close> is \<open>map fst d\<close> and \<open>len(d)\<close> is \<open>length d\<close>.
\<close>

type_synonym ('k, 'v) dict = "('k \<times> 'v) list"

text \<open>
  A naive \<open>datetime\<close> is its number of microseconds since the epoch, a \<open>date\<close> its day
  number. Finite \<open>float\<close> values are rational numbers and their comparisons are exact;
  \<open>timedelta.total_seconds()\<close> is the quotient by \<open>10^6\<close>.
\<close>

type_synonym datetime = int
type_synonym date = int

definition date_of :: "datetime \<Rightarrow> date" where
  "date_of t = t div 86400000000"

definition total_seconds :: "int \<Rightarrow> rat" where
  "total_seconds d = of_int d / 1000000"

section \<open>core/signal.py\<close>

record signal =
  coin :: string
  action :: string
  strength :: rat
  timestamp :: datetime
  source :: string
  metadata :: "(string, string) dict"

text \<open>
  The dataclass constructor stores the six fields as given and then runs
  \<open>__post_init__\<close>, whose four assertions are checked in the source's order. An empty
  string is falsy.
\<close>

definition post_init :: "signal \<Rightarrow> error + signal" where
  "post_init s =
     (if action s \<notin> set [''BUY'', ''SELL'', ''HOLD''] then Inl (AssertionError ''Invalid action'')
      else if \<not> (0 \<le> strength s \<and> strength s \<le> 1) then Inl (AssertionError ''Strength must be 0-1'')
      else if coin s = [] then Inl (AssertionError ''Coin symbol cannot be empty'')
      else if source s = [] then Inl (AssertionError ''Source cannot be empty'')
      else Inr s)"

definition Signal ::
  "string \<Rightarrow> string \<Rightarrow> rat \<Rightarrow> datetime \<Rightarrow> string \<Rightarrow> (string, string) dict \<Rightarrow> error + signal" where
  "Signal c a s t src md =
     post_init \<lparr>coin = c, action = a, strength = s, timestamp = t, source = src, metadata = md\<rparr>"

definition is_actionable :: "signal \<Rightarrow> rat \<Rightarrow> bool" where
  "is_actionable s min_strength \<longleftrightarrow>
     action s \<in> set [''BUY'', ''SELL''] \<and> strength s \<ge> min_strength"

section \<open>config/trading_settings.py and the gateway (utils/api_client.py)\<close>

text \<open>
  The entries of \<open>TRADING_SETTINGS\<close> the two managers read. The keys read with
  \<open>settings.get(key, default)\<close> are optional; \<open>cooldown_period\<close> is not in the shipped
  dictionary.
\<close>

record settings =
  max_positions :: int
  position_size_usd :: rat
  stop_loss_percent :: rat
  take_profit_percent :: rat
  min_signal_strength :: "rat option"
  cooldown_period :: "rat option"

definition TRADING_SETTINGS :: settings where
  "TRADING_SETTINGS =
     \<lparr>max_positions = 10, position_size_usd = 20, stop_loss_percent = 22 / 10,
      take_profit_percent = 1012 / 100, min_signal_strength = Some (75 / 100),
      cooldown_period = None\<rparr>"

text \<open>The position dictionary \<open>get_positions\<close> builds for each coin with a non-zero size.\<close>

record position =
  size' :: rat
  entry_price :: rat
  current_price :: rat
  unrealized_pnl :: rat
  profit_pct :: rat

type_synonym positions = "(string, position) dict"

record balance_info =
  total' :: rat
  withdrawable :: rat

text \<open>
  What \<open>place_market_order\<close> and \<open>close_position\<close> return: a falsy value (\<open>None\<close> or an
  empty dictionary), or a dictionary whose \<open>status\<close> entry may be missing.
\<close>

datatype api_result = NoResult | Result "string option"

definition result_ok :: "api_result \<Rightarrow> bool" where
  "result_ok r = (case r of NoResult \<Rightarrow> False | Result st \<Rightarrow> st = Some ''ok'')"

text \<open>The calls that reach the gateway, recorded in the order they are made.\<close>

datatype api_call =
    GetPositions
  | GetAccountBalance
  | GetCurrentPrice string
  | PlaceMarketOrder string string rat

fun is_place_order :: "api_call \<Rightarrow> bool" where
  "is_place_order (PlaceMarketOrder c s z) = True"
| "is_place_order _ = False"

section \<open>managers/order_manager.py\<close>

record order_manager =
  cooldowns :: "(string, datetime) dict"
  daily_trades :: "(string, int) dict"
  total_daily_trades :: int
  last_reset_date :: date

text \<open>
  Everything one call of \<open>process_signal\<close> reads from outside, one field for each read
  in the order of the source: the clock in \<open>_reset_daily_counters_if_needed\<close>, the two
  \<open>get_positions\<close> calls (duplicate check, then position limit), the clock in
  \<open>_check_cooldown\<close>, \<open>get_account_balance\<close>, \<open>get_current_price\<close>,
  \<open>place_market_order\<close> and the clock read that stamps the cooldown. A gateway call
  either raises (\<open>Inl\<close>) or returns (\<open>Inr\<close>).
\<close>

record signal_env =
  now_reset :: datetime
  positions_dup :: "error + positions"
  positions_limit :: "error + positions"
  now_cooldown :: datetime
  balance :: "error + balance_info"
  price :: "error + rat option"
  order_result :: "error + api_result"
  now_success :: datetime

definition reset_daily_counters_if_needed :: "datetime \<Rightarrow> order_manager \<Rightarrow> order_manager" where
  "reset_daily_counters_if_needed now om =
     (let current_date = date_of now in
      if current_date > last_reset_date om
      then om\<lparr>daily_trades := [], total_daily_trades := 0, last_reset_date := current_date\<rparr>
      else om)"

definition check_position_limit :: "settings \<Rightarrow> error + positions \<Rightarrow> bool" where
  "check_position_limit st r =
     (case r of
        Inl e \<Rightarrow> False
      | Inr ps \<Rightarrow> if int (length ps) \<ge> max_positions st then False else True)"

definition check_duplicate_position :: "error + positions \<Rightarrow> string \<Rightarrow> bool" where
  "check_duplicate_position r c =
     (case r of
        Inl e \<Rightarrow> False
      | Inr ps \<Rightarrow> if map_of ps c \<noteq> None then False else True)"

text \<open>\<open>settings.get('cooldown_period', 300)\<close>.\<close>

definition get_cooldown_period :: "settings \<Rightarrow> rat" where
  "get_cooldown_period st = (case cooldown_period st of None \<Rightarrow> 300 | Some p \<Rightarrow> p)"

definition check_cooldown :: "settings \<Rightarrow> order_manager \<Rightarrow> string \<Rightarrow> datetime \<Rightarrow> bool" where
  "check_cooldown st om c now =
     (case map_of (cooldowns om) c of
        None \<Rightarrow> True
      | Some t \<Rightarrow>
          (let period = get_cooldown_period st;
               elapsed = total_seconds (now - t)
           in if elapsed < period then False else True))"

definition check_balance :: "error + balance_info \<Rightarrow> rat \<Rightarrow> bool" where
  "check_balance r position_size =
     (case r of
        Inl e \<Rightarrow> False
      | Inr b \<Rightarrow> if withdrawable b < position_size then False else True)"

text \<open>
  Python's \<open>round(x, n)\<close>: the multiple of \<open>10^(-n)\<close> nearest to \<open>x\<close>, a tie going to the
  even one. It counts decimal places. The model rounds the exact quotient; the code rounds
  the binary double nearest to it, so the two can differ where the exact quotient is a
  decimal tie (a price of 160000 gives 0.000125, which the double falls just above).
\<close>

definition round_half_even :: "rat \<Rightarrow> int" where
  "round_half_even x =
     (let f = \<lfloor>x\<rfloor>; d = x - of_int f in
      if d < 1 / 2 then f else if d > 1 / 2 then f + 1 else if even f then f else f + 1)"

definition py_round :: "rat \<Rightarrow> nat \<Rightarrow> rat" where
  "py_round x n = of_int (round_half_even (x * 10 ^ n)) / 10 ^ n"

text \<open>
  \<open>_execute_order\<close> returns its verdict and the gateway calls it made. A price that is
  \<open>None\<close> or zero is falsy. \<open>_set_stop_loss_take_profit\<close> only computes two prices for
  the log, inside its own handler, so it contributes nothing here.
\<close>

definition order_size :: "settings \<Rightarrow> rat \<Rightarrow> rat" where
  "order_size st current_price' =
     (let raw_size = position_size_usd st / current_price' in py_round raw_size 5)"

definition execute_order :: "settings \<Rightarrow> signal_env \<Rightarrow> signal \<Rightarrow> bool \<times> api_call list" where
  "execute_order st env s =
     (let c = coin s; a = action s in
      case price env of
        Inl e \<Rightarrow> (False, [GetCurrentPrice c])
      | Inr None \<Rightarrow> (False, [GetCurrentPrice c])
      | Inr (Some p) \<Rightarrow>
          if p = 0 then (False, [GetCurrentPrice c])
          else
            (let sz = order_size st p;
                 side = (if a = ''BUY'' then ''buy'' else ''sell'');
                 calls = [GetCurrentPrice c, PlaceMarketOrder c side sz]
             in case order_result env of
                  Inl e \<Rightarrow> (False, calls)
                | Inr r \<Rightarrow> if result_ok r then (True, calls) else (False, calls)))"

definition record_success :: "string \<Rightarrow> datetime \<Rightarrow> order_manager \<Rightarrow> order_manager" where
  "record_success c now om =
     om\<lparr>cooldowns := AList.update c now (cooldowns om),
        daily_trades :=
          AList.update c ((case map_of (daily_trades om) c of None \<Rightarrow> 0 | Some n \<Rightarrow> n) + 1)
            (daily_trades om),
        total_daily_trades := total_daily_trades om + 1\<rparr>"

text \<open>
  \<open>process_signal\<close> returns its verdict, the manager afterwards and the gateway calls
  made. Each gate handles the exceptions of its own gateway read, so nothing reaches the
  outer handler.
\<close>

definition process_signal ::
  "settings \<Rightarrow> signal_env \<Rightarrow> signal \<Rightarrow> order_manager \<Rightarrow> bool \<times> order_manager \<times> api_call list" where
  "process_signal st env s om =
     (let om1 = reset_daily_counters_if_needed (now_reset env) om in
      if action s = ''HOLD'' then (False, om1, [])
      else
        let min_strength = (case min_signal_strength st of None \<Rightarrow> 7 / 10 | Some m \<Rightarrow> m) in
        if \<not> is_actionable s min_strength then (False, om1, [])
        else if \<not> check_duplicate_position (positions_dup env) (coin s)
          then (False, om1, [GetPositions])
        else if \<not> check_position_limit st (positions_limit env)
          then (False, om1, [GetPositions, GetPositions])
        else if \<not> check_cooldown st om1 (coin s) (now_cooldown env)
          then (False, om1, [GetPositions, GetPositions])
        else if \<not> check_balance (balance env) (position_size_usd st)
          then (False, om1, [GetPositions, GetPositions, GetAccountBalance])
        else
          let (success, calls) = execute_order st env s;
              trace = [GetPositions, GetPositions, GetAccountBalance] @ calls
          in if success then (True, record_success (coin s) (now_success env) om1, trace)
             else (False, om1, trace))"

text \<open>
  \<open>OrderManager.get_stats\<close> reads the clock once for each cooldown entry; \<open>clock i\<close> is
  the reading taken for the \<open>i\<close>-th entry. The window is the literal 300 of the source.
\<close>

record order_stats =
  stats_total_daily_trades :: int
  trades_by_coin :: "(string, int) dict"
  coins_in_cooldown :: nat

definition order_get_stats :: "(nat \<Rightarrow> datetime) \<Rightarrow> order_manager \<Rightarrow> order_stats" where
  "order_get_stats clock om =
     \<lparr>stats_total_daily_trades = total_daily_trades om,
      trades_by_coin = daily_trades om,
      coins_in_cooldown =
        length (filter (\<lambda>i. total_seconds (clock i - snd (cooldowns om ! i)) < 300)
                  [0 ..< length (cooldowns om)])\<rparr>"

section \<open>managers/position_manager.py\<close>

text \<open>
  One entry of \<open>position_states\<close>. The entries come from the JSON file at start-up, and
  the code reads \<open>highest_pnl_pct\<close> with \<open>.get\<close>, so that key may be absent.
\<close>

record position_state =
  highest_pnl_pct :: "rat option"
  trailing_stop_activated :: bool
  first_seen :: datetime
  last_updated :: datetime

type_synonym position_states = "(string, position_state) dict"

text \<open>
  The file \<open>position_states.json\<close>: missing, unreadable as JSON, or holding a
  dictionary. Opening it for writing truncates it, so a write ends in one of three ways:
  it succeeds, \<open>open\<close> raises and the file is as before, or \<open>json.dump\<close> raises and
  leaves a partial file.
\<close>

datatype file_content = NoFile | Unreadable | Json position_states

datatype write_outcome = WriteOk | OpenFails | DumpFails

record position_manager =
  position_states :: position_states
  position_states_file :: file_content
  monitoring :: bool

definition load_position_states :: "file_content \<Rightarrow> position_states" where
  "load_position_states f = (case f of Json states \<Rightarrow> states | _ \<Rightarrow> [])"

definition save_position_states :: "write_outcome \<Rightarrow> position_manager \<Rightarrow> position_manager" where
  "save_position_states w pm =
     (case w of
        WriteOk \<Rightarrow> pm\<lparr>position_states_file := Json (position_states pm)\<rparr>
      | OpenFails \<Rightarrow> pm
      | DumpFails \<Rightarrow> pm\<lparr>position_states_file := Unreadable\<rparr>)"

text \<open>
  What one call of \<open>_update_position_state\<close> reads from outside: the two clock reads
  of a new entry (an existing entry takes only \<open>now_last_updated\<close>) and how the write
  ends.
\<close>

record update_env =
  now_first_seen :: datetime
  now_last_updated :: datetime
  save_outcome :: write_outcome

definition update_position_state ::
  "string \<Rightarrow> rat \<Rightarrow> update_env \<Rightarrow> position_manager \<Rightarrow> position_manager" where
  "update_position_state c p ue pm =
     (let states =
        (case map_of (position_states pm) c of
           None \<Rightarrow>
             AList.update c
               \<lparr>highest_pnl_pct = Some p, trailing_stop_activated = False,
                first_seen = now_first_seen ue, last_updated = now_last_updated ue\<rparr>
               (position_states pm)
         | Some s \<Rightarrow>
             (let current_highest = (case highest_pnl_pct s of None \<Rightarrow> p | Some h \<Rightarrow> h);
                  s1 = (if p > current_highest then s\<lparr>highest_pnl_pct := Some p\<rparr> else s)
              in AList.update c (s1\<lparr>last_updated := now_last_updated ue\<rparr>) (position_states pm)))
      in save_position_states (save_outcome ue) (pm\<lparr>position_states := states\<rparr>))"

definition cleanup_closed_positions ::
  "string list \<Rightarrow> write_outcome \<Rightarrow> position_manager \<Rightarrow> position_manager" where
  "cleanup_closed_positions open_coins w pm =
     (let closed_coins = filter (\<lambda>c. c \<notin> set open_coins) (map fst (position_states pm)) in
      if closed_coins \<noteq> []
      then save_position_states w
             (pm\<lparr>position_states := fold AList.delete closed_coins (position_states pm)\<rparr>)
      else pm)"

text \<open>
  \<open>_check_exit_conditions\<close> looks the high-water mark up for its debug print only; the
  verdict depends on the position and the two thresholds. The reason is the head of the
  source's message, without the formatted numbers.
\<close>

definition check_exit_conditions :: "settings \<Rightarrow> string \<Rightarrow> position \<Rightarrow> bool \<times> string" where
  "check_exit_conditions st c pos =
     (let p = profit_pct pos; sl_pct = stop_loss_percent st; tp_pct = take_profit_percent st in
      if p \<le> - sl_pct then (True, ''STOP LOSS HIT'')
      else if p \<ge> tp_pct then (True, ''TAKE PROFIT HIT'')
      else (False, []))"

definition close_position ::
  "string \<Rightarrow> error + api_result \<Rightarrow> write_outcome \<Rightarrow> position_manager \<Rightarrow> position_manager" where
  "close_position c r w pm =
     (case r of
        Inl e \<Rightarrow> pm
      | Inr res \<Rightarrow>
          if result_ok res
          then (if map_of (position_states pm) c \<noteq> None
                then save_position_states w
                       (pm\<lparr>position_states := AList.delete c (position_states pm)\<rparr>)
                else pm)
          else pm)"

text \<open>
  What one monitoring pass reads from outside. Each coin occurs once in the dictionary
  \<open>get_positions\<close> returns, so the reads made while a coin is handled are functions of
  the coin.
\<close>

record monitor_env =
  get_positions_result :: "error + positions"
  cleanup_write :: write_outcome
  update_envs :: "string \<Rightarrow> update_env"
  close_results :: "string \<Rightarrow> error + api_result"
  close_writes :: "string \<Rightarrow> write_outcome"

definition check_position ::
  "settings \<Rightarrow> monitor_env \<Rightarrow> string \<times> position \<Rightarrow> position_manager \<Rightarrow> position_manager" where
  "check_position st env cp pm =
     (let c = fst cp; position_data = snd cp;
          pm1 = update_position_state c (profit_pct position_data) (update_envs env c) pm;
          (should_exit, reason) = check_exit_conditions st c position_data
      in if should_exit then close_position c (close_results env c) (close_writes env c) pm1
         else pm1)"

definition check_positions :: "settings \<Rightarrow> monitor_env \<Rightarrow> position_manager \<Rightarrow> position_manager" where
  "check_positions st env pm =
     (case get_positions_result env of
        Inl e \<Rightarrow> pm
      | Inr ps \<Rightarrow>
          if ps = []
          then (if position_states pm \<noteq> []
                then cleanup_closed_positions [] (cleanup_write env) pm else pm)
          else fold (check_position st env) ps
                 (cleanup_closed_positions (map fst ps) (cleanup_write env) pm))"

text \<open>
  \<open>get_all_positions\<close> returns one entry for each open position (the coin, the position
  and a copy of its state, \<open>None\<close> for the empty dictionary) and the manager afterwards.
\<close>

type_synonym position_entry = "string \<times> position \<times> position_state option"

definition get_all_positions_step ::
  "monitor_env \<Rightarrow> string \<times> position \<Rightarrow> position_entry list \<times> position_manager
     \<Rightarrow> position_entry list \<times> position_manager" where
  "get_all_positions_step env cp acc =
     (let c = fst cp; position_data = snd cp; result = fst acc; pm = snd acc;
          pm1 = update_position_state c (profit_pct position_data) (update_envs env c) pm;
          state = map_of (position_states pm1) c
      in (result @ [(c, position_data, state)], pm1))"

definition get_all_positions ::
  "monitor_env \<Rightarrow> position_manager \<Rightarrow> position_entry list \<times> position_manager" where
  "get_all_positions env pm =
     (case get_positions_result env of
        Inl e \<Rightarrow> ([], pm)
      | Inr ps \<Rightarrow> fold (get_all_positions_step env) ps ([], pm))"

record position_stats =
  total_positions :: nat
  total_unrealized_pnl :: rat
  stats_monitoring :: bool
  tracked_states :: nat

definition position_get_stats ::
  "monitor_env \<Rightarrow> position_manager \<Rightarrow> position_stats \<times> position_manager" where
  "position_get_stats env pm =
     (let (positions, pm1) = get_all_positions env pm in
      (\<lparr>total_positions = length positions,
        total_unrealized_pnl = sum_list (map (\<lambda>e. unrealized_pnl (fst (snd e))) positions),
        stats_monitoring = monitoring pm1,
        tracked_states = length (position_states pm1)\<rparr>, pm1))"

section \<open>core/trading_bot.py\<close>

record trading_bot =
  running :: bool
  execute_orders :: bool
  monitored_coins :: "string list"
  signal_generators :: "string list"
  order_manager :: order_manager
  position_manager :: position_manager

record status =
  status_running :: bool
  status_execute_orders :: bool
  status_monitored_coins :: nat
  status_signal_generators :: nat
  status_order_manager :: order_stats
  status_position_manager :: position_stats

definition get_status ::
  "(nat \<Rightarrow> datetime) \<Rightarrow> monitor_env \<Rightarrow> trading_bot \<Rightarrow> status \<times> trading_bot" where
  "get_status clock env self =
     (let order_stats = order_get_stats clock (order_manager self);
          (position_stats, pm1) = position_get_stats env (position_manager self);
          bot1 = self\<lparr>position_manager := pm1\<rparr>
      in (\<lparr>status_running = running bot1,
           status_execute_orders = execute_orders bot1,
           status_monitored_coins = length (monitored_coins bot1),
           status_signal_generators = length (signal_generators bot1),
           status_order_manager = order_stats,
           status_position_manager = position_stats\<rparr>, bot1))"

section \<open>Notions used to state the properties\<close>

text \<open>The high-water mark recorded for a coin, if the coin is tracked and the key is there.\<close>

definition highest_of :: "string \<Rightarrow> position_manager \<Rightarrow> rat option" where
  "highest_of c pm =
     (case map_of (position_states pm) c of None \<Rightarrow> None | Some s \<Rightarrow> highest_pnl_pct s)"

text \<open>
  The managers a sequence of \<open>_update_position_state\<close> calls passes through: the one
  before the first call, then the one after each call. A call is its coin, its
  \<open>profit_pct\<close> and what it reads from outside.
\<close>

fun update_run ::
  "(string \<times> rat \<times> update_env) list \<Rightarrow> position_manager \<Rightarrow> position_manager list" where
  "update_run [] pm = [pm]"
| "update_run (u # us) pm =
     pm # update_run us (update_position_state (fst u) (fst (snd u)) (snd (snd u)) pm)"

text \<open>
  A position of the pass is closed by the pass: its exit condition holds and the gateway
  answers \<open>close_position\<close> with status ok.
\<close>

definition exit_confirmed :: "settings \<Rightarrow> monitor_env \<Rightarrow> string \<times> position \<Rightarrow> bool" where
  "exit_confirmed st env cp \<longleftrightarrow>
     fst (check_exit_conditions st (fst cp) (snd cp)) \<and>
     (case close_results env (fst cp) of Inl e \<Rightarrow> False | Inr r \<Rightarrow> result_ok r)"

text \<open>
  Rounding to \<open>n\<close> significant figures, as the specification words the order size: the
  decimal exponent \<open>e\<close> of \<open>x\<close> is the integer with \<open>10^e \<le> |x| < 10^(e+1)\<close>, and \<open>x\<close> is
  rounded to a multiple of \<open>10^(e-n+1)\<close>. The exponent is found from the digit counts of
  numerator and denominator, which fix it up to one.
\<close>

fun digits10 :: "nat \<Rightarrow> nat" where
  "digits10 n = (if n < 10 then 1 else Suc (digits10 (n div 10)))"

declare digits10.simps [simp del]

definition pow10 :: "int \<Rightarrow> rat" where
  "pow10 e = (if e \<ge> 0 then 10 ^ nat e else 1 / 10 ^ nat (- e))"

definition decimal_exponent :: "rat \<Rightarrow> int" where
  "decimal_exponent x =
     (let (a, b) = quotient_of \<bar>x\<bar>;
          d = int (digits10 (nat a)) - int (digits10 (nat b))
      in if pow10 d \<le> \<bar>x\<bar> then d else d - 1)"

definition spec_round_significant :: "nat \<Rightarrow> rat \<Rightarrow> rat" where
  "spec_round_significant n x =
     (if x = 0 then 0
      else let q = pow10 (decimal_exponent x - int n + 1)
           in of_int (round_half_even (x / q)) * q)"

section \<open>Scenarios\<close>

text \<open>
  A strong BUY signal for BTC on day 2, a gateway that lets everything through, and an
  order manager whose last BTC entry is 300 seconds before the cooldown check and whose
  counters date from day 1.
\<close>

definition btc_signal :: signal where
  "btc_signal = \<lparr>coin = ''BTC'', action = ''BUY'', strength = 8 / 10, timestamp = 172800000000,
                  source = ''rsi_5min'', metadata = []\<rparr>"

definition btc_position :: position where
  "btc_position = \<lparr>size' = 1 / 1000, entry_price = 50000, current_price = 50500,
                    unrealized_pnl = 1 / 2, profit_pct = 1\<rparr>"

definition quiet_env :: signal_env where
  "quiet_env = \<lparr>now_reset = 172800000000, positions_dup = Inr [], positions_limit = Inr [],
                 now_cooldown = 172800000001, balance = Inr \<lparr>total' = 500, withdrawable = 500\<rparr>,
                 price = Inr (Some 60000), order_result = Inr (Result (Some ''ok'')),
                 now_success = 172800000002\<rparr>"

definition busy_manager :: order_manager where
  "busy_manager = \<lparr>cooldowns = [(''BTC'', 172500000001)], daily_trades = [(''BTC'', 2)],
                    total_daily_trades = 2, last_reset_date = 1\<rparr>"

text \<open>
  A monitoring pass that sees ETH at -2.5% (below the stop loss of 2.2%) and BTC at +1%,
  with a gateway that confirms every close, on a manager tracking ETH and ZEC.
\<close>

definition eth_position :: position where
  "eth_position = \<lparr>size' = 1, entry_price = 2000, current_price = 1950,
                    unrealized_pnl = - 50, profit_pct = - 25 / 10\<rparr>"

definition eth_state :: position_state where
  "eth_state = \<lparr>highest_pnl_pct = Some 1, trailing_stop_activated = False,
                 first_seen = 172800000000, last_updated = 172800000001\<rparr>"

definition tracking_manager :: position_manager where
  "tracking_manager = \<lparr>position_states = [(''ETH'', eth_state), (''ZEC'', eth_state)],
                        position_states_file = Json [(''ETH'', eth_state), (''ZEC'', eth_state)],
                        monitoring = True\<rparr>"

definition steady_update :: update_env where
  "steady_update = \<lparr>now_first_seen = 172800000003, now_last_updated = 172800000004,
                     save_outcome = WriteOk\<rparr>"

definition closing_env :: monitor_env where
  "closing_env =
     \<lparr>get_positions_result = Inr [(''ETH'', eth_position), (''BTC'', btc_position)],
      cleanup_write = WriteOk,
      update_envs = (\<lambda>c. steady_update),
      close_results = (\<lambda>c. Inr (Result (Some ''ok''))),
      close_writes = (\<lambda>c. WriteOk)\<rparr>"

definition fresh_manager :: position_manager where
  "fresh_manager = \<lparr>position_states = [], position_states_file = NoFile, monitoring = True\<rparr>"

definition eth_updates :: "(string \<times> rat \<times> update_env) list" where
  "eth_updates = [(''ETH'', 1, steady_update), (''BTC'', 7, steady_update),
                  (''ETH'', - 3, steady_update), (''ETH'', 4, steady_update)]"

definition idle_bot :: trading_bot where
  "idle_bot = \<lparr>running = True, execute_orders = True,
                monitored_coins = [''ZEC'', ''ZEN'', ''ENA'', ''BTC''],
                signal_generators = [''rsi_5min''],
                order_manager = busy_manager,
                position_manager = fresh_manager\<rparr>"

definition tracking_bot :: trading_bot where
  "tracking_bot = idle_bot\<lparr>position_manager := tracking_manager\<rparr>"

definition fixed_clock :: "nat \<Rightarrow> datetime" where
  "fixed_clock i = 172800000005"

section \<open>Signal construction\<close>

text \<open>
  C9 (as amended). The constructor does not clamp. It returns the signal with the strength
  exactly as given when the action is one of BUY, SELL, HOLD, the strength lies in
  \<open>[0,1]\<close> and coin and source are non-empty; on every other input it raises
  \<open>AssertionError\<close> and no signal exists. So every constructed signal has its strength
  in \<open>[0,1]\<close> and a non-empty coin and source.
\<close>

theorem Signal_checks_range:
  "(a \<in> set [''BUY'', ''SELL'', ''HOLD''] \<and> 0 \<le> x \<and> x \<le> 1 \<and> c \<noteq> [] \<and> src \<noteq> [] \<longrightarrow>
      Signal c a x t src md =
        Inr \<lparr>coin = c, action = a, strength = x, timestamp = t, source = src, metadata = md\<rparr>)
   \<and> (\<not> (a \<in> set [''BUY'', ''SELL'', ''HOLD''] \<and> 0 \<le> x \<and> x \<le> 1 \<and> c \<noteq> [] \<and> src \<noteq> []) \<longrightarrow>
      (\<exists>m. Signal c a x t src md = Inl (AssertionError m)))"
  by (auto simp add: Signal_def post_init_def)

theorem Signal_checks_range_witness:
  "Signal ''BTC'' ''BUY'' (8 / 10) 172800000000 ''rsi_5min'' [] = Inr btc_signal"
  using Signal_checks_range [of "''BUY''" "8 / 10" "''BTC''" "''rsi_5min''" 172800000000 "[]"]
  by (simp add: btc_signal_def)

text \<open>C9 as stated fails: a strength of 1.5 is not clamped to 1, the constructor raises.\<close>

theorem Signal_strength_not_clamped:
  "Signal ''BTC'' ''BUY'' (3 / 2) 172800000000 ''rsi_5min'' [] =
     Inl (AssertionError ''Strength must be 0-1'')"
  by (simp add: Signal_def post_init_def)

section \<open>Order manager\<close>

lemma reset_keeps_cooldowns:
  "cooldowns (reset_daily_counters_if_needed now om) = cooldowns om"
  by (simp add: reset_daily_counters_if_needed_def Let_def)



text \<open>
  C1. When the \<open>get_positions\<close> call of the duplicate check returns a dictionary that
  holds the signal's coin, \<open>process_signal\<close> returns False and no \<open>place_market_order\<close>
  call is made, whatever the signal, the settings, the manager and the other answers of
  the gateway.
\<close>

theorem duplicate_position_rejected:
  assumes "positions_dup env = Inr ps" and "map_of ps (coin s) \<noteq> None"
  shows "fst (process_signal st env s om) = False \<and>
         filter is_place_order (snd (snd (process_signal st env s om))) = []"
  using assms by (simp add: process_signal_def check_duplicate_position_def Let_def)

theorem duplicate_position_rejected_witness:
  "positions_dup (quiet_env\<lparr>positions_dup := Inr [(''BTC'', btc_position)]\<rparr>) =
     Inr [(''BTC'', btc_position)]
   \<and> map_of [(''BTC'', btc_position)] (coin btc_signal) \<noteq> None
   \<and> fst (process_signal TRADING_SETTINGS (quiet_env\<lparr>positions_dup := Inr [(''BTC'', btc_position)]\<rparr>)
             btc_signal busy_manager) = False
   \<and> filter is_place_order
        (snd (snd (process_signal TRADING_SETTINGS
            (quiet_env\<lparr>positions_dup := Inr [(''BTC'', btc_position)]\<rparr>) btc_signal busy_manager))) = []"
proof -
  have h1: "positions_dup (quiet_env\<lparr>positions_dup := Inr [(''BTC'', btc_position)]\<rparr>) =
              Inr [(''BTC'', btc_position)]"
    by simp
  have h2: "map_of [(''BTC'', btc_position)] (coin btc_signal) \<noteq> None"
    by (simp add: btc_signal_def)
  from duplicate_position_rejected [OF h1 h2] h1 h2 show ?thesis by blast
qed

text \<open>
  C10. When a gateway read of a validation gate raises (the \<open>get_positions\<close> call of the
  duplicate check or of the position limit, or \<open>get_account_balance\<close>),
  \<open>process_signal\<close> returns False, as a value and not as an exception, and no
  \<open>place_market_order\<close> call is made.
\<close>

theorem validation_fails_closed:
  assumes "positions_dup env = Inl e \<or> positions_limit env = Inl e \<or> balance env = Inl e"
  shows "fst (process_signal st env s om) = False \<and>
         filter is_place_order (snd (snd (process_signal st env s om))) = []"
  using assms
  by (auto simp add: process_signal_def check_duplicate_position_def check_position_limit_def
        check_balance_def Let_def)

theorem validation_fails_closed_witness:
  "balance (quiet_env\<lparr>balance := Inl (Exception ''timeout'')\<rparr>) = Inl (Exception ''timeout'')
   \<and> process_signal TRADING_SETTINGS (quiet_env\<lparr>balance := Inl (Exception ''timeout'')\<rparr>)
        btc_signal busy_manager =
      (False, \<lparr>cooldowns = [(''BTC'', 172500000001)], daily_trades = [],
               total_daily_trades = 0, last_reset_date = 2\<rparr>,
       [GetPositions, GetPositions, GetAccountBalance])"
proof -
  have h: "positions_dup (quiet_env\<lparr>balance := Inl (Exception ''timeout'')\<rparr>) = Inl (Exception ''timeout'')
           \<or> positions_limit (quiet_env\<lparr>balance := Inl (Exception ''timeout'')\<rparr>) = Inl (Exception ''timeout'')
           \<or> balance (quiet_env\<lparr>balance := Inl (Exception ''timeout'')\<rparr>) = Inl (Exception ''timeout'')"
    by simp
  have v: "process_signal TRADING_SETTINGS (quiet_env\<lparr>balance := Inl (Exception ''timeout'')\<rparr>)
        btc_signal busy_manager =
      (False, \<lparr>cooldowns = [(''BTC'', 172500000001)], daily_trades = [],
               total_daily_trades = 0, last_reset_date = 2\<rparr>,
       [GetPositions, GetPositions, GetAccountBalance])"
    by code_simp
  from validation_fails_closed [OF h, of TRADING_SETTINGS btc_signal busy_manager] v
  show ?thesis by simp
qed

text \<open>
  C7. For a coin with a recorded last entry at \<open>t\<close>: when the time elapsed at the cooldown
  check is less than the cooldown period (300 seconds unless configured),
  \<open>_check_cooldown\<close> fails, \<open>process_signal\<close> returns False and places no order; when the
  elapsed time is equal to or greater than the period, \<open>_check_cooldown\<close> passes.
\<close>

theorem cooldown_window:
  assumes "map_of (cooldowns om) (coin s) = Some t"
  shows "(total_seconds (now_cooldown env - t) < get_cooldown_period st \<longrightarrow>
            \<not> check_cooldown st om (coin s) (now_cooldown env)
            \<and> fst (process_signal st env s om) = False
            \<and> filter is_place_order (snd (snd (process_signal st env s om))) = [])
       \<and> (total_seconds (now - t) \<ge> get_cooldown_period st \<longrightarrow>
            check_cooldown st om (coin s) now)"
  using assms
  by (auto simp add: process_signal_def check_cooldown_def reset_keeps_cooldowns Let_def)

theorem cooldown_window_witness:
  "map_of (cooldowns busy_manager) (coin btc_signal) = Some 172500000001
   \<and> total_seconds (now_cooldown (quiet_env\<lparr>now_cooldown := 172800000000\<rparr>) - 172500000001)
       < get_cooldown_period TRADING_SETTINGS
   \<and> fst (process_signal TRADING_SETTINGS (quiet_env\<lparr>now_cooldown := 172800000000\<rparr>)
            btc_signal busy_manager) = False
   \<and> get_cooldown_period TRADING_SETTINGS \<le> total_seconds (172800000001 - 172500000001)
   \<and> check_cooldown TRADING_SETTINGS busy_manager (coin btc_signal) 172800000001"
proof -
  have h1: "map_of (cooldowns busy_manager) (coin btc_signal) = Some 172500000001"
    by (simp add: busy_manager_def btc_signal_def)
  have h2: "total_seconds (now_cooldown (quiet_env\<lparr>now_cooldown := 172800000000\<rparr>) - 172500000001)
              < get_cooldown_period TRADING_SETTINGS"
    by (simp add: total_seconds_def get_cooldown_period_def TRADING_SETTINGS_def)
  have h3: "get_cooldown_period TRADING_SETTINGS \<le> total_seconds (172800000001 - 172500000001)"
    by (simp add: total_seconds_def get_cooldown_period_def TRADING_SETTINGS_def)
  from cooldown_window [OF h1, of "quiet_env\<lparr>now_cooldown := 172800000000\<rparr>"
         TRADING_SETTINGS 172800000001] h1 h2 h3
  show ?thesis by blast
qed




text \<open>
  C8 (as amended). The reset is the first step of \<open>process_signal\<close>. When the current
  date is later than \<open>last_reset_date\<close>, the daily counters are cleared and
  \<open>last_reset_date\<close> becomes the current date before any gate runs: a rejected signal
  leaves empty counters, an executed one leaves exactly its own trade. When the current
  date is equal to or earlier than \<open>last_reset_date\<close>, nothing is reset: the date stays
  and a rejected signal leaves the counters as they were.
\<close>

theorem daily_reset_forward_only:
  "(date_of (now_reset env) > last_reset_date om \<longrightarrow>
      reset_daily_counters_if_needed (now_reset env) om =
        om\<lparr>daily_trades := [], total_daily_trades := 0, last_reset_date := date_of (now_reset env)\<rparr>
      \<and> last_reset_date (fst (snd (process_signal st env s om))) = date_of (now_reset env)
      \<and> (\<not> fst (process_signal st env s om) \<longrightarrow>
           daily_trades (fst (snd (process_signal st env s om))) = []
           \<and> total_daily_trades (fst (snd (process_signal st env s om))) = 0)
      \<and> (fst (process_signal st env s om) \<longrightarrow>
           daily_trades (fst (snd (process_signal st env s om))) = [(coin s, 1)]
           \<and> total_daily_trades (fst (snd (process_signal st env s om))) = 1))
   \<and> (date_of (now_reset env) \<le> last_reset_date om \<longrightarrow>
      reset_daily_counters_if_needed (now_reset env) om = om
      \<and> last_reset_date (fst (snd (process_signal st env s om))) = last_reset_date om
      \<and> (\<not> fst (process_signal st env s om) \<longrightarrow>
           daily_trades (fst (snd (process_signal st env s om))) = daily_trades om
           \<and> total_daily_trades (fst (snd (process_signal st env s om))) = total_daily_trades om))"
proof -
  obtain ok calls where ex: "execute_order st env s = (ok, calls)"
    by (cases "execute_order st env s")
  show ?thesis
    by (simp add: process_signal_def ex Let_def record_success_def
          reset_daily_counters_if_needed_def)
qed

theorem daily_reset_forward_only_witness:
  "last_reset_date busy_manager < date_of (now_reset quiet_env)
   \<and> fst (process_signal TRADING_SETTINGS quiet_env btc_signal busy_manager)
   \<and> last_reset_date (fst (snd (process_signal TRADING_SETTINGS quiet_env btc_signal busy_manager))) = 2
   \<and> daily_trades (fst (snd (process_signal TRADING_SETTINGS quiet_env btc_signal busy_manager))) =
       [(''BTC'', 1)]"
proof -
  have h1: "last_reset_date busy_manager < date_of (now_reset quiet_env)"
    by (simp add: busy_manager_def quiet_env_def date_of_def)
  have h2: "fst (process_signal TRADING_SETTINGS quiet_env btc_signal busy_manager)"
    by code_simp
  have d: "date_of (now_reset quiet_env) = 2" "coin btc_signal = ''BTC''"
    by (simp_all add: quiet_env_def date_of_def btc_signal_def)
  from daily_reset_forward_only [where env = quiet_env and om = busy_manager
         and st = TRADING_SETTINGS and s = btc_signal] h1 h2 d
  show ?thesis by simp
qed

text \<open>
  C8 as stated fails: the clock reads day 1 while \<open>last_reset_date\<close> is day 2. The dates
  differ, and the counters and the date are left as they were.
\<close>

theorem earlier_date_keeps_counters:
  "date_of (now_reset (quiet_env\<lparr>now_reset := 100000000000,
                                 positions_dup := Inr [(''BTC'', btc_position)]\<rparr>)) = 1
   \<and> last_reset_date (busy_manager\<lparr>last_reset_date := 2\<rparr>) = 2
   \<and> process_signal TRADING_SETTINGS
        (quiet_env\<lparr>now_reset := 100000000000, positions_dup := Inr [(''BTC'', btc_position)]\<rparr>)
        btc_signal (busy_manager\<lparr>last_reset_date := 2\<rparr>) =
      (False, \<lparr>cooldowns = [(''BTC'', 172500000001)], daily_trades = [(''BTC'', 2)],
               total_daily_trades = 2, last_reset_date = 2\<rparr>, [GetPositions])"
  by code_simp

text \<open>
  C6. The source comment asks for 5 significant figures; \<open>round(raw_size, 5)\<close> keeps 5
  decimal places. For BTC at 60000 and a position of 20 USD the raw size is 0.000333...:
  the order goes out with size 0.00033, where 5 significant figures give 0.00033333.
\<close>

theorem order_size_five_decimals:
  "execute_order TRADING_SETTINGS quiet_env btc_signal =
     (True, [GetCurrentPrice ''BTC'', PlaceMarketOrder ''BTC'' ''buy'' (33 / 100000)])
   \<and> order_size TRADING_SETTINGS 60000 = 33 / 100000
   \<and> spec_round_significant 5 (position_size_usd TRADING_SETTINGS / 60000) = 33333 / 100000000"
  by code_simp

section \<open>Position manager\<close>

lemma save_keeps_states [simp]:
  "position_states (save_position_states w pm) = position_states pm"
  by (simp add: save_position_states_def split: write_outcome.splits)

lemma save_keeps_monitoring [simp]:
  "monitoring (save_position_states w pm) = monitoring pm"
  by (simp add: save_position_states_def split: write_outcome.splits)

lemma update_keeps_monitoring [simp]:
  "monitoring (update_position_state c p ue pm) = monitoring pm"
  by (simp add: update_position_state_def Let_def)

lemma map_of_update_position_state:
  "map_of (position_states (update_position_state c p ue pm)) =
     (map_of (position_states pm))(c \<mapsto>
        (case map_of (position_states pm) c of
           None \<Rightarrow> \<lparr>highest_pnl_pct = Some p, trailing_stop_activated = False,
                     first_seen = now_first_seen ue, last_updated = now_last_updated ue\<rparr>
         | Some s \<Rightarrow>
             (if p > (case highest_pnl_pct s of None \<Rightarrow> p | Some h \<Rightarrow> h)
              then s\<lparr>highest_pnl_pct := Some p\<rparr> else s)\<lparr>last_updated := now_last_updated ue\<rparr>))"
  by (simp add: update_position_state_def Let_def AList.update_conv' split: option.splits)

lemma highest_step:
  assumes "highest_of c pm = Some a"
  shows "\<exists>b. highest_of c (update_position_state c' p ue pm) = Some b \<and> a \<le> b"
  using assms
  by (auto simp add: highest_of_def map_of_update_position_state split: option.splits)

lemma highest_new:
  assumes "map_of (position_states pm) c = None"
  shows "highest_of c (update_position_state c p ue pm) = Some p"
  using assms by (simp add: highest_of_def map_of_update_position_state)

lemma highest_max:
  assumes "highest_of c pm = Some a"
  shows "highest_of c (update_position_state c p ue pm) = Some (max a p)"
  using assms
  by (auto simp add: highest_of_def map_of_update_position_state split: option.splits)

lemma update_run_length [simp]: "length (update_run us pm) = Suc (length us)"
  by (induction us arbitrary: pm) simp_all

lemma update_run_Suc:
  "i < length us \<Longrightarrow>
   update_run us pm ! Suc i =
     update_position_state (fst (us ! i)) (fst (snd (us ! i))) (snd (snd (us ! i)))
       (update_run us pm ! i)"
proof (induction us arbitrary: pm i)
  case Nil
  then show ?case by simp
next
  case (Cons u us)
  show ?case
  proof (cases i)
    case 0
    then show ?thesis by (cases us) simp_all
  next
    case (Suc j)
    with Cons show ?thesis by simp
  qed
qed

text \<open>
  C2. Along any sequence of \<open>_update_position_state\<close> calls (for this coin or for others),
  whenever the coin has a high-water mark before a call it has one after the call, and
  the new one is greater than or equal to the old one; when the call is for the coin
  itself the new mark is the maximum of the old mark and the reading. A call for a coin
  that is not tracked starts its mark at the reading.
\<close>

theorem highest_pnl_non_decreasing:
  "\<forall>i < length us.
     (\<forall>a. highest_of c (update_run us pm ! i) = Some a \<longrightarrow>
        (\<exists>b. highest_of c (update_run us pm ! Suc i) = Some b \<and> a \<le> b
              \<and> (fst (us ! i) = c \<longrightarrow> b = max a (fst (snd (us ! i))))))
     \<and> (fst (us ! i) = c \<and> map_of (position_states (update_run us pm ! i)) c = None \<longrightarrow>
          highest_of c (update_run us pm ! Suc i) = Some (fst (snd (us ! i))))"
proof (intro allI impI conjI)
  fix i a
  assume i: "i < length us" and a: "highest_of c (update_run us pm ! i) = Some a"
  from highest_step [OF a] highest_max [OF a] update_run_Suc [OF i, of pm]
  show "\<exists>b. highest_of c (update_run us pm ! Suc i) = Some b \<and> a \<le> b
              \<and> (fst (us ! i) = c \<longrightarrow> b = max a (fst (snd (us ! i))))"
    by (metis option.inject)
next
  fix i
  assume i: "i < length us"
    and h: "fst (us ! i) = c \<and> map_of (position_states (update_run us pm ! i)) c = None"
  with highest_new update_run_Suc [OF i, of pm]
  show "highest_of c (update_run us pm ! Suc i) = Some (fst (snd (us ! i)))"
    by simp
qed

text \<open>
  The readings 1, -3 and 4 for ETH, with a BTC update in between: the mark is 1 before
  the last call and 4 after it, and it stayed at 1 through the reading of -3.
\<close>

theorem highest_pnl_non_decreasing_witness:
  "3 < length eth_updates
   \<and> map (highest_of ''ETH'') (update_run eth_updates fresh_manager) =
       [None, Some 1, Some 1, Some 1, Some 4]
   \<and> highest_of ''ETH'' (update_run eth_updates fresh_manager ! 3) = Some 1
   \<and> highest_of ''ETH'' (update_run eth_updates fresh_manager ! Suc 3) = Some (max 1 4)"
proof -
  have h1: "3 < length eth_updates"
    by (simp add: eth_updates_def)
  have h2: "highest_of ''ETH'' (update_run eth_updates fresh_manager ! 3) = Some 1"
    by code_simp
  have h3: "fst (eth_updates ! 3) = ''ETH''" "fst (snd (eth_updates ! 3)) = 4"
    by (simp_all add: eth_updates_def)
  have v: "map (highest_of ''ETH'') (update_run eth_updates fresh_manager) =
             [None, Some 1, Some 1, Some 1, Some 4]"
    by code_simp
  from highest_pnl_non_decreasing [where us = eth_updates and c = "''ETH''" and pm = fresh_manager]
    h1 h2
  have "\<exists>b. highest_of ''ETH'' (update_run eth_updates fresh_manager ! Suc 3) = Some b \<and> 1 \<le> b
            \<and> (fst (eth_updates ! 3) = ''ETH'' \<longrightarrow> b = max 1 (fst (snd (eth_updates ! 3))))"
    by blast
  with h3 have "highest_of ''ETH'' (update_run eth_updates fresh_manager ! Suc 3) = Some (max 1 4)"
    by auto
  with h1 h2 v show ?thesis by blast
qed

lemma keys_delete: "fst ` set (AList.delete k al) = fst ` set al - {k}"
  by (auto simp add: AList.delete_eq)

lemma keys_fold_delete: "fst ` set (fold AList.delete cs al) = fst ` set al - set cs"
  by (induction cs arbitrary: al) (auto simp add: keys_delete)

lemma keys_update_position_state:
  "fst ` set (position_states (update_position_state c p ue pm)) =
     insert c (fst ` set (position_states pm))"
  by (simp add: update_position_state_def Let_def AList.dom_update split: option.splits)

lemma keys_cleanup:
  "fst ` set (position_states (cleanup_closed_positions open_coins w pm)) =
     fst ` set (position_states pm) \<inter> set open_coins"
  by (auto simp add: cleanup_closed_positions_def Let_def keys_fold_delete filter_empty_conv)

lemma keys_close_position:
  "fst ` set (position_states (close_position c r w pm)) =
     (if (case r of Inl e \<Rightarrow> False | Inr res \<Rightarrow> result_ok res)
      then fst ` set (position_states pm) - {c} else fst ` set (position_states pm))"
  by (auto simp add: close_position_def keys_delete map_of_eq_None_iff split: sum.splits)

lemma keys_check_position:
  "fst ` set (position_states (check_position st env cp pm)) =
     (if exit_confirmed st env cp then fst ` set (position_states pm) - {fst cp}
      else insert (fst cp) (fst ` set (position_states pm)))"
  by (auto simp add: check_position_def Let_def exit_confirmed_def keys_close_position
        keys_update_position_state split: prod.splits sum.splits)

lemma keys_fold_check_position:
  "distinct (map fst ps) \<Longrightarrow>
   fst ` set (position_states (fold (check_position st env) ps pm)) =
     (fst ` set (position_states pm) - fst ` set ps)
       \<union> {c. \<exists>pd. (c, pd) \<in> set ps \<and> \<not> exit_confirmed st env (c, pd)}"
proof (induction ps arbitrary: pm)
  case Nil
  then show ?case by simp
next
  case (Cons cp ps)
  obtain c pd where cp: "cp = (c, pd)" by (cases cp)
  from Cons.prems have d: "distinct (map fst ps)" and n: "c \<notin> fst ` set ps"
    by (simp_all add: cp)
  have n': "\<And>pd'. (c, pd') \<notin> set ps" using n by force
  show ?case
    using n n' by (auto simp add: Cons.IH [OF d] keys_check_position cp)
qed

text \<open>
  C3 (as amended). After a monitoring pass whose \<open>get_positions\<close> call returns a
  dictionary, the tracked coins are exactly the coins of that dictionary whose position
  the pass did not close (exit condition met and close confirmed by the gateway). So
  every tracked coin absent from the result is removed, and a coin present in the result
  loses its state only through a confirmed close of this pass. When \<open>get_positions\<close>
  raises, the pass changes nothing.
\<close>

theorem tracked_after_pass:
  "(\<forall>ps. get_positions_result env = Inr ps \<and> distinct (map fst ps) \<longrightarrow>
      fst ` set (position_states (check_positions st env pm)) =
        {c. \<exists>pd. (c, pd) \<in> set ps \<and> \<not> exit_confirmed st env (c, pd)})
   \<and> (\<forall>e. get_positions_result env = Inl e \<longrightarrow> check_positions st env pm = pm)"
  by (auto simp add: check_positions_def keys_fold_check_position keys_cleanup)

text \<open>
  ETH and ZEC are tracked; the pass sees ETH (stop loss hit, close confirmed) and BTC
  (held). Afterwards BTC alone is tracked.
\<close>

theorem tracked_after_pass_witness:
  "get_positions_result closing_env = Inr [(''ETH'', eth_position), (''BTC'', btc_position)]
   \<and> distinct (map fst [(''ETH'', eth_position), (''BTC'', btc_position)])
   \<and> fst ` set (position_states (check_positions TRADING_SETTINGS closing_env tracking_manager)) =
       {''BTC''}"
proof -
  have h1: "get_positions_result closing_env = Inr [(''ETH'', eth_position), (''BTC'', btc_position)]"
    by (simp add: closing_env_def)
  have h2: "distinct (map fst [(''ETH'', eth_position), (''BTC'', btc_position)])"
    by simp
  have e: "exit_confirmed TRADING_SETTINGS closing_env (''ETH'', eth_position)"
    by code_simp
  have b: "\<not> exit_confirmed TRADING_SETTINGS closing_env (''BTC'', btc_position)"
    by code_simp
  from tracked_after_pass [of closing_env TRADING_SETTINGS tracking_manager] h1 h2
  have "fst ` set (position_states (check_positions TRADING_SETTINGS closing_env tracking_manager)) =
        {c. \<exists>pd. (c, pd) \<in> set [(''ETH'', eth_position), (''BTC'', btc_position)]
              \<and> \<not> exit_confirmed TRADING_SETTINGS closing_env (c, pd)}"
    by blast
  also have "\<dots> = {''BTC''}"
    using e b by auto
  finally show ?thesis using h1 h2 by blast
qed

text \<open>
  C3 as stated fails: ETH is in the latest \<open>get_positions\<close> result and was tracked, and
  after the pass its state is gone.
\<close>

theorem open_position_state_deleted:
  "get_positions_result closing_env = Inr [(''ETH'', eth_position), (''BTC'', btc_position)]
   \<and> map_of [(''ETH'', eth_position), (''BTC'', btc_position)] ''ETH'' = Some eth_position
   \<and> map_of (position_states tracking_manager) ''ETH'' = Some eth_state
   \<and> map_of (position_states (check_positions TRADING_SETTINGS closing_env tracking_manager)) ''ETH''
       = None"
  by code_simp

section \<open>Orchestrator status\<close>

lemma get_all_positions_step_snd:
  "snd (get_all_positions_step env cp acc) =
     update_position_state (fst cp) (profit_pct (snd cp)) (update_envs env (fst cp)) (snd acc)"
  by (simp add: get_all_positions_step_def Let_def)

lemma fold_get_all_keys:
  "fst ` set (position_states (snd (fold (get_all_positions_step env) ps acc))) =
     fst ` set (position_states (snd acc)) \<union> fst ` set ps"
  by (induction ps arbitrary: acc)
     (auto simp add: get_all_positions_step_snd keys_update_position_state)

lemma fold_get_all_other:
  "c \<notin> fst ` set ps \<Longrightarrow>
   map_of (position_states (snd (fold (get_all_positions_step env) ps acc))) c =
     map_of (position_states (snd acc)) c"
  by (induction ps arbitrary: acc)
     (auto simp add: get_all_positions_step_snd map_of_update_position_state)

lemma fold_get_all_monitoring:
  "monitoring (snd (fold (get_all_positions_step env) ps acc)) = monitoring (snd acc)"
  by (induction ps arbitrary: acc) (auto simp add: get_all_positions_step_snd)

lemma get_status_snd:
  "snd (get_status clock env self) =
     self\<lparr>position_manager := snd (get_all_positions env (position_manager self))\<rparr>"
  by (simp add: get_status_def position_get_stats_def Let_def split: prod.splits)

lemma fold_get_all_snd:
  "snd (fold (get_all_positions_step env) ps acc) =
     fold (\<lambda>cp. update_position_state (fst cp) (profit_pct (snd cp)) (update_envs env (fst cp)))
       ps (snd acc)"
  by (induction ps arbitrary: acc) (simp_all add: get_all_positions_step_snd)

lemma fold_update_other:
  "c \<notin> fst ` set ps \<Longrightarrow>
   map_of (position_states
      (fold (\<lambda>cp. update_position_state (fst cp) (profit_pct (snd cp)) (update_envs env (fst cp)))
         ps pm)) c = map_of (position_states pm) c"
  by (induction ps arbitrary: pm) (auto simp add: map_of_update_position_state)

lemma fold_update_entry:
  "distinct (map fst ps) \<Longrightarrow> (c, pd) \<in> set ps \<Longrightarrow>
   map_of (position_states
      (fold (\<lambda>cp. update_position_state (fst cp) (profit_pct (snd cp)) (update_envs env (fst cp)))
         ps pm)) c =
     Some (case map_of (position_states pm) c of
             None \<Rightarrow> \<lparr>highest_pnl_pct = Some (profit_pct pd), trailing_stop_activated = False,
                       first_seen = now_first_seen (update_envs env c),
                       last_updated = now_last_updated (update_envs env c)\<rparr>
           | Some s \<Rightarrow>
               (if profit_pct pd > (case highest_pnl_pct s of None \<Rightarrow> profit_pct pd | Some h \<Rightarrow> h)
                then s\<lparr>highest_pnl_pct := Some (profit_pct pd)\<rparr> else s)
                 \<lparr>last_updated := now_last_updated (update_envs env c)\<rparr>)"
proof (induction ps arbitrary: pm)
  case Nil
  then show ?case by simp
next
  case (Cons cp ps)
  obtain c' pd' where cp: "cp = (c', pd')" by (cases cp)
  from Cons.prems have d: "distinct (map fst ps)" and n: "c' \<notin> fst ` set ps"
    by (simp_all add: cp)
  show ?case
  proof (cases "(c, pd) = cp")
    case True
    then have e: "c' = c" "pd' = pd" by (simp_all add: cp)
    from n e have "c \<notin> fst ` set ps" by simp
    then show ?thesis
      by (simp add: cp e fold_update_other map_of_update_position_state)
  next
    case False
    with Cons.prems have m: "(c, pd) \<in> set ps" by simp
    with n have ne: "c \<noteq> c'" by force
    from Cons.IH [OF d m] ne show ?thesis
      by (simp add: cp map_of_update_position_state)
  qed
qed

lemma update_file:
  "position_states_file (update_position_state c p ue pm) =
     (case save_outcome ue of
        WriteOk \<Rightarrow> Json (position_states (update_position_state c p ue pm))
      | OpenFails \<Rightarrow> position_states_file pm
      | DumpFails \<Rightarrow> Unreadable)"
  by (simp add: update_position_state_def save_position_states_def Let_def
        split: write_outcome.splits option.splits)

lemma fold_last:
  "ps \<noteq> [] \<Longrightarrow> fold f ps x = f (last ps) (fold f (butlast ps) x)"
  by (induction ps arbitrary: x) auto

lemma fold_update_file:
  assumes "ps \<noteq> []"
  shows "position_states_file
      (fold (\<lambda>cp. update_position_state (fst cp) (profit_pct (snd cp)) (update_envs env (fst cp)))
         ps pm) =
     (case save_outcome (update_envs env (fst (last ps))) of
        WriteOk \<Rightarrow> Json (position_states
          (fold (\<lambda>cp. update_position_state (fst cp) (profit_pct (snd cp)) (update_envs env (fst cp)))
             ps pm))
      | OpenFails \<Rightarrow> position_states_file
          (fold (\<lambda>cp. update_position_state (fst cp) (profit_pct (snd cp)) (update_envs env (fst cp)))
             (butlast ps) pm)
      | DumpFails \<Rightarrow> Unreadable)"
proof -
  have l: "fold (\<lambda>cp. update_position_state (fst cp) (profit_pct (snd cp)) (update_envs env (fst cp))) ps pm
      = update_position_state (fst (last ps)) (profit_pct (snd (last ps)))
          (update_envs env (fst (last ps)))
          (fold (\<lambda>cp. update_position_state (fst cp) (profit_pct (snd cp)) (update_envs env (fst cp)))
             (butlast ps) pm)"
    by (simp add: fold_last [OF assms])
  show ?thesis
    unfolding l by (simp add: update_file)
qed

lemma get_status_pm:
  "position_manager (snd (get_status clock env self)) =
     (case get_positions_result env of
        Inl e \<Rightarrow> position_manager self
      | Inr ps \<Rightarrow>
          fold (\<lambda>cp. update_position_state (fst cp) (profit_pct (snd cp)) (update_envs env (fst cp)))
            ps (position_manager self))"
  by (simp add: get_status_snd get_all_positions_def fold_get_all_snd split: sum.splits)

text \<open>
  C5 (as amended). \<open>get_status\<close> leaves the order manager (cooldowns, counters, reset
  date) and the bot's own fields unchanged. In the position manager it does exactly what
  one \<open>_update_position_state\<close> call for each coin \<open>get_positions\<close> returns does, in
  the order returned: a coin without an entry gets one, with the reading as its
  high-water mark and both timestamps fresh; a coin with an entry has its mark raised to
  the reading when the reading is higher and its \<open>last_updated\<close> refreshed; and the file
  ends as the last write leaves it (the final map when that write succeeds). Entries of
  coins not returned are unchanged, no entry is deleted, and when \<open>get_positions\<close>
  raises or returns nothing the whole bot, state map and file included, is unchanged.
\<close>

theorem get_status_frame:
  "order_manager (snd (get_status clock env self)) = order_manager self
   \<and> running (snd (get_status clock env self)) = running self
   \<and> execute_orders (snd (get_status clock env self)) = execute_orders self
   \<and> monitored_coins (snd (get_status clock env self)) = monitored_coins self
   \<and> signal_generators (snd (get_status clock env self)) = signal_generators self
   \<and> monitoring (position_manager (snd (get_status clock env self))) =
       monitoring (position_manager self)
   \<and> ((\<exists>e. get_positions_result env = Inl e) \<or> get_positions_result env = Inr [] \<longrightarrow>
        snd (get_status clock env self) = self)
   \<and> (\<forall>ps c. get_positions_result env = Inr ps \<and> c \<notin> fst ` set ps \<longrightarrow>
        map_of (position_states (position_manager (snd (get_status clock env self)))) c =
          map_of (position_states (position_manager self)) c)
   \<and> fst ` set (position_states (position_manager self))
       \<subseteq> fst ` set (position_states (position_manager (snd (get_status clock env self))))
   \<and> (\<forall>ps. get_positions_result env = Inr ps \<longrightarrow>
        position_manager (snd (get_status clock env self)) =
          fold (\<lambda>cp. update_position_state (fst cp) (profit_pct (snd cp)) (update_envs env (fst cp)))
            ps (position_manager self))
   \<and> (\<forall>ps c pd. get_positions_result env = Inr ps \<and> distinct (map fst ps) \<and> (c, pd) \<in> set ps \<longrightarrow>
        (map_of (position_states (position_manager self)) c = None \<longrightarrow>
           map_of (position_states (position_manager (snd (get_status clock env self)))) c =
             Some \<lparr>highest_pnl_pct = Some (profit_pct pd), trailing_stop_activated = False,
                   first_seen = now_first_seen (update_envs env c),
                   last_updated = now_last_updated (update_envs env c)\<rparr>)
        \<and> (\<forall>s. map_of (position_states (position_manager self)) c = Some s \<longrightarrow>
           map_of (position_states (position_manager (snd (get_status clock env self)))) c =
             Some ((if profit_pct pd > (case highest_pnl_pct s of None \<Rightarrow> profit_pct pd | Some h \<Rightarrow> h)
                    then s\<lparr>highest_pnl_pct := Some (profit_pct pd)\<rparr> else s)
                     \<lparr>last_updated := now_last_updated (update_envs env c)\<rparr>)))
   \<and> (\<forall>ps. get_positions_result env = Inr ps \<and> ps \<noteq> [] \<longrightarrow>
        position_states_file (position_manager (snd (get_status clock env self))) =
          (case save_outcome (update_envs env (fst (last ps))) of
             WriteOk \<Rightarrow> Json (position_states (position_manager (snd (get_status clock env self))))
           | OpenFails \<Rightarrow> position_states_file
               (fold (\<lambda>cp. update_position_state (fst cp) (profit_pct (snd cp)) (update_envs env (fst cp)))
                  (butlast ps) (position_manager self))
           | DumpFails \<Rightarrow> Unreadable))"
proof -
  have frame:
    "order_manager (snd (get_status clock env self)) = order_manager self
     \<and> running (snd (get_status clock env self)) = running self
     \<and> execute_orders (snd (get_status clock env self)) = execute_orders self
     \<and> monitored_coins (snd (get_status clock env self)) = monitored_coins self
     \<and> signal_generators (snd (get_status clock env self)) = signal_generators self
     \<and> monitoring (position_manager (snd (get_status clock env self))) =
         monitoring (position_manager self)
     \<and> ((\<exists>e. get_positions_result env = Inl e) \<or> get_positions_result env = Inr [] \<longrightarrow>
          snd (get_status clock env self) = self)
     \<and> (\<forall>ps c. get_positions_result env = Inr ps \<and> c \<notin> fst ` set ps \<longrightarrow>
          map_of (position_states (position_manager (snd (get_status clock env self)))) c =
            map_of (position_states (position_manager self)) c)
     \<and> fst ` set (position_states (position_manager self))
         \<subseteq> fst ` set (position_states (position_manager (snd (get_status clock env self))))"
    by (auto simp add: get_status_snd get_all_positions_def fold_get_all_keys fold_get_all_other
          fold_get_all_monitoring split: sum.splits)
  have run: "\<forall>ps. get_positions_result env = Inr ps \<longrightarrow>
        position_manager (snd (get_status clock env self)) =
          fold (\<lambda>cp. update_position_state (fst cp) (profit_pct (snd cp)) (update_envs env (fst cp)))
            ps (position_manager self)"
    by (simp add: get_status_pm)
  have entry: "\<forall>ps c pd. get_positions_result env = Inr ps \<and> distinct (map fst ps) \<and> (c, pd) \<in> set ps \<longrightarrow>
        (map_of (position_states (position_manager self)) c = None \<longrightarrow>
           map_of (position_states (position_manager (snd (get_status clock env self)))) c =
             Some \<lparr>highest_pnl_pct = Some (profit_pct pd), trailing_stop_activated = False,
                   first_seen = now_first_seen (update_envs env c),
                   last_updated = now_last_updated (update_envs env c)\<rparr>)
        \<and> (\<forall>s. map_of (position_states (position_manager self)) c = Some s \<longrightarrow>
           map_of (position_states (position_manager (snd (get_status clock env self)))) c =
             Some ((if profit_pct pd > (case highest_pnl_pct s of None \<Rightarrow> profit_pct pd | Some h \<Rightarrow> h)
                    then s\<lparr>highest_pnl_pct := Some (profit_pct pd)\<rparr> else s)
                     \<lparr>last_updated := now_last_updated (update_envs env c)\<rparr>))"
  proof (intro allI impI)
    fix ps c pd
    assume a: "get_positions_result env = Inr ps \<and> distinct (map fst ps) \<and> (c, pd) \<in> set ps"
    then have g: "get_positions_result env = Inr ps" and d: "distinct (map fst ps)"
      and m: "(c, pd) \<in> set ps" by simp_all
    have e: "map_of (position_states (position_manager (snd (get_status clock env self)))) c =
      Some (case map_of (position_states (position_manager self)) c of
             None \<Rightarrow> \<lparr>highest_pnl_pct = Some (profit_pct pd), trailing_stop_activated = False,
                       first_seen = now_first_seen (update_envs env c),
                       last_updated = now_last_updated (update_envs env c)\<rparr>
           | Some s \<Rightarrow>
               (if profit_pct pd > (case highest_pnl_pct s of None \<Rightarrow> profit_pct pd | Some h \<Rightarrow> h)
                then s\<lparr>highest_pnl_pct := Some (profit_pct pd)\<rparr> else s)
                 \<lparr>last_updated := now_last_updated (update_envs env c)\<rparr>)"
      using fold_update_entry [OF d m, of env "position_manager self"]
      by (simp add: get_status_pm g)
    show "(map_of (position_states (position_manager self)) c = None \<longrightarrow>
           map_of (position_states (position_manager (snd (get_status clock env self)))) c =
             Some \<lparr>highest_pnl_pct = Some (profit_pct pd), trailing_stop_activated = False,
                   first_seen = now_first_seen (update_envs env c),
                   last_updated = now_last_updated (update_envs env c)\<rparr>)
        \<and> (\<forall>s. map_of (position_states (position_manager self)) c = Some s \<longrightarrow>
           map_of (position_states (position_manager (snd (get_status clock env self)))) c =
             Some ((if profit_pct pd > (case highest_pnl_pct s of None \<Rightarrow> profit_pct pd | Some h \<Rightarrow> h)
                    then s\<lparr>highest_pnl_pct := Some (profit_pct pd)\<rparr> else s)
                     \<lparr>last_updated := now_last_updated (update_envs env c)\<rparr>))"
      by (simp add: e)
  qed
  have persisted: "\<forall>ps. get_positions_result env = Inr ps \<and> ps \<noteq> [] \<longrightarrow>
        position_states_file (position_manager (snd (get_status clock env self))) =
          (case save_outcome (update_envs env (fst (last ps))) of
             WriteOk \<Rightarrow> Json (position_states (position_manager (snd (get_status clock env self))))
           | OpenFails \<Rightarrow> position_states_file
               (fold (\<lambda>cp. update_position_state (fst cp) (profit_pct (snd cp)) (update_envs env (fst cp)))
                  (butlast ps) (position_manager self))
           | DumpFails \<Rightarrow> Unreadable)"
  proof (intro allI impI)
    fix ps
    assume a: "get_positions_result env = Inr ps \<and> ps \<noteq> []"
    then have g: "get_positions_result env = Inr ps" and n: "ps \<noteq> []" by simp_all
    have pmeq: "position_manager (snd (get_status clock env self)) =
        fold (\<lambda>cp. update_position_state (fst cp) (profit_pct (snd cp)) (update_envs env (fst cp)))
          ps (position_manager self)"
      by (simp add: get_status_pm g)
    show "position_states_file (position_manager (snd (get_status clock env self))) =
          (case save_outcome (update_envs env (fst (last ps))) of
             WriteOk \<Rightarrow> Json (position_states (position_manager (snd (get_status clock env self))))
           | OpenFails \<Rightarrow> position_states_file
               (fold (\<lambda>cp. update_position_state (fst cp) (profit_pct (snd cp)) (update_envs env (fst cp)))
                  (butlast ps) (position_manager self))
           | DumpFails \<Rightarrow> Unreadable)"
      unfolding pmeq by (rule fold_update_file [OF n])
  qed
  from frame run entry persisted show ?thesis
    apply -
    apply (elim conjE)
    apply (intro conjI)
    apply assumption+
    done
qed


text \<open>
  The bot tracks ETH (mark 1) and ZEC while ETH (-2.5%) and BTC (+1%) are open: BTC gets
  a new entry, ETH keeps its mark with a fresh \<open>last_updated\<close>, ZEC is untouched and the
  file holds the new map. With nothing open the bot is unchanged.
\<close>

theorem get_status_frame_witness:
  "get_positions_result closing_env = Inr [(''ETH'', eth_position), (''BTC'', btc_position)]
   \<and> distinct (map fst [(''ETH'', eth_position), (''BTC'', btc_position)])
   \<and> map_of (position_states (position_manager tracking_bot)) ''BTC'' = None
   \<and> map_of (position_states (position_manager (snd (get_status fixed_clock closing_env tracking_bot))))
         ''BTC'' =
       Some \<lparr>highest_pnl_pct = Some 1, trailing_stop_activated = False,
             first_seen = 172800000003, last_updated = 172800000004\<rparr>
   \<and> map_of (position_states (position_manager tracking_bot)) ''ETH'' = Some eth_state
   \<and> map_of (position_states (position_manager (snd (get_status fixed_clock closing_env tracking_bot))))
         ''ETH'' = Some (eth_state\<lparr>last_updated := 172800000004\<rparr>)
   \<and> map_of (position_states (position_manager (snd (get_status fixed_clock closing_env tracking_bot))))
         ''ZEC'' = Some eth_state
   \<and> position_states_file (position_manager (snd (get_status fixed_clock closing_env tracking_bot))) =
       Json (position_states (position_manager (snd (get_status fixed_clock closing_env tracking_bot))))
   \<and> order_manager (snd (get_status fixed_clock closing_env tracking_bot)) = busy_manager
   \<and> get_positions_result (closing_env\<lparr>get_positions_result := Inr []\<rparr>) = Inr []
   \<and> snd (get_status fixed_clock (closing_env\<lparr>get_positions_result := Inr []\<rparr>) tracking_bot) =
       tracking_bot"
proof -
  note T = get_status_frame [where env = closing_env and clock = fixed_clock and self = tracking_bot]
  note T0 = get_status_frame [where env = "closing_env\<lparr>get_positions_result := Inr []\<rparr>"
      and clock = fixed_clock and self = tracking_bot]
  have h1: "get_positions_result closing_env = Inr [(''ETH'', eth_position), (''BTC'', btc_position)]"
    by (simp add: closing_env_def)
  have h2: "distinct (map fst [(''ETH'', eth_position), (''BTC'', btc_position)])"
    by simp
  have b0: "map_of (position_states (position_manager tracking_bot)) ''BTC'' = None"
    by (simp add: tracking_bot_def tracking_manager_def)
  have e0: "map_of (position_states (position_manager tracking_bot)) ''ETH'' = Some eth_state"
    by (simp add: tracking_bot_def tracking_manager_def)
  have z0: "map_of (position_states (position_manager tracking_bot)) ''ZEC'' = Some eth_state"
    by (simp add: tracking_bot_def tracking_manager_def)
  have u: "update_envs closing_env ''BTC'' = steady_update" "update_envs closing_env ''ETH'' = steady_update"
    by (simp_all add: closing_env_def)
  have v: "now_first_seen steady_update = 172800000003" "now_last_updated steady_update = 172800000004"
    "save_outcome steady_update = WriteOk"
    by (simp_all add: steady_update_def)
  have p: "profit_pct btc_position = 1" "profit_pct eth_position = - 25 / 10"
    "highest_pnl_pct eth_state = Some 1"
    by (simp_all add: btc_position_def eth_position_def eth_state_def)
  note entry = T [THEN conjunct2, THEN conjunct2, THEN conjunct2, THEN conjunct2, THEN conjunct2,
      THEN conjunct2, THEN conjunct2, THEN conjunct2, THEN conjunct2, THEN conjunct2, THEN conjunct1]
  note persisted = T [THEN conjunct2, THEN conjunct2, THEN conjunct2, THEN conjunct2, THEN conjunct2,
      THEN conjunct2, THEN conjunct2, THEN conjunct2, THEN conjunct2, THEN conjunct2, THEN conjunct2]
  note other = T [THEN conjunct2, THEN conjunct2, THEN conjunct2, THEN conjunct2, THEN conjunct2,
      THEN conjunct2, THEN conjunct2, THEN conjunct1]
  note unchanged = T0 [THEN conjunct2, THEN conjunct2, THEN conjunct2, THEN conjunct2, THEN conjunct2,
      THEN conjunct2, THEN conjunct1]
  have btc: "map_of (position_states (position_manager (snd (get_status fixed_clock closing_env tracking_bot))))
         ''BTC'' =
       Some \<lparr>highest_pnl_pct = Some 1, trailing_stop_activated = False,
             first_seen = 172800000003, last_updated = 172800000004\<rparr>"
    using entry [rule_format, of "[(''ETH'', eth_position), (''BTC'', btc_position)]" "''BTC''" btc_position]
      h1 b0 by (simp add: u v p)
  have eth: "map_of (position_states (position_manager (snd (get_status fixed_clock closing_env tracking_bot))))
         ''ETH'' = Some (eth_state\<lparr>last_updated := 172800000004\<rparr>)"
    using entry [rule_format, of "[(''ETH'', eth_position), (''BTC'', btc_position)]" "''ETH''" eth_position]
      h1 e0 by (simp add: u v p)
  have zec: "map_of (position_states (position_manager (snd (get_status fixed_clock closing_env tracking_bot))))
         ''ZEC'' = Some eth_state"
    using other [rule_format, of "[(''ETH'', eth_position), (''BTC'', btc_position)]" "''ZEC''"] h1 z0
    by simp
  have fl: "position_states_file (position_manager (snd (get_status fixed_clock closing_env tracking_bot))) =
       Json (position_states (position_manager (snd (get_status fixed_clock closing_env tracking_bot))))"
    using persisted [rule_format, of "[(''ETH'', eth_position), (''BTC'', btc_position)]"] h1
    by (simp add: u v)
  have om: "order_manager (snd (get_status fixed_clock closing_env tracking_bot)) = busy_manager"
    using T [THEN conjunct1] by (simp add: tracking_bot_def idle_bot_def)
  have h0: "get_positions_result (closing_env\<lparr>get_positions_result := Inr []\<rparr>) = Inr []"
    by simp
  have un: "snd (get_status fixed_clock (closing_env\<lparr>get_positions_result := Inr []\<rparr>) tracking_bot) =
       tracking_bot"
    using unchanged h0 by simp
  from h1 h2 b0 btc e0 eth zec fl om h0 un show ?thesis
    apply -
    apply (intro conjI)
    apply assumption+
    done
qed

text \<open>
  C5 as stated fails: asking a bot that tracks nothing for its status while ETH and BTC
  are open creates both entries and writes the file.
\<close>

theorem get_status_creates_states:
  "position_manager idle_bot =
     \<lparr>position_states = [], position_states_file = NoFile, monitoring = True\<rparr>
   \<and> position_manager (snd (get_status fixed_clock closing_env idle_bot)) =
     \<lparr>position_states =
        [(''ETH'', \<lparr>highest_pnl_pct = Some (- 5 / 2), trailing_stop_activated = False,
                    first_seen = 172800000003, last_updated = 172800000004\<rparr>),
         (''BTC'', \<lparr>highest_pnl_pct = Some 1, trailing_stop_activated = False,
                    first_seen = 172800000003, last_updated = 172800000004\<rparr>)],
      position_states_file = Json
        [(''ETH'', \<lparr>highest_pnl_pct = Some (- 5 / 2), trailing_stop_activated = False,
                    first_seen = 172800000003, last_updated = 172800000004\<rparr>),
         (''BTC'', \<lparr>highest_pnl_pct = Some 1, trailing_stop_activated = False,
                    first_seen = 172800000003, last_updated = 172800000004\<rparr>)],
      monitoring = True\<rparr>"
  by code_simp

end
